theory Spec2Isabelle
  imports Complex_Main
begin

section \<open>The metric catalog of the Kinesis producer (metrics.go)\<close>

text \<open>
  The file declares eleven metric descriptors, turns each into a Prometheus collector
  (\<open>newMetric\<close>), registers the collector, logs a failed registration and stores the
  collector in a typed struct (\<open>getMetrics\<close>).

  A Go \<open>float64\<close> literal is modelled by the decimal number it denotes: the claims about
  bucket boundaries compare literals with literals, and nothing in the file computes with
  them.
\<close>

type_synonym float64 = real

subsection \<open>Package-level constants\<close>

definition systemName :: string where
  "systemName = ''go_kinesis_producer''"

definition timeMillisecondBuckets :: "float64 list" where
  "timeMillisecondBuckets = [0.01, 0.1, 0.25, 0.5, 1, 2.5, 5, 10, 100, 1000, 10000, 60000]"

definition sizeByteBuckets :: "float64 list" where
  "sizeByteBuckets = [1, 16, 64, 256, 512, 1024, 16384, 65536, 262144, 1048576, 4194304]"

subsection \<open>The collectors of the Prometheus client\<close>

text \<open>
  The client library is not part of the repository. A collector is represented by the
  arguments of the constructor call that builds it: the options struct and the label
  names. Fields of the options that the source leaves out keep Go's zero value; of
  those, \<open>Namespace\<close> is kept in the model because it takes part in the metric's full name.
\<close>

record CounterOpts =
  c_Namespace :: string
  c_Subsystem :: string
  c_Name :: string
  c_Help :: string

record HistogramOpts =
  h_Namespace :: string
  h_Subsystem :: string
  h_Name :: string
  h_Help :: string
  h_Buckets :: "float64 list"

datatype CounterVec = NewCounterVec CounterOpts "string list"

datatype HistogramVec = NewHistogramVec HistogramOpts "string list"

text \<open>
  A value of the interface type \<open>prometheus.Collector\<close> is \<open>None\<close> for the nil interface
  and otherwise carries its dynamic type.
\<close>

datatype Collector = CounterVecPtr CounterVec | HistogramVecPtr HistogramVec

subsection \<open>The descriptor\<close>

record metric =
  MetricCollector :: "Collector option"
  ID :: string
  Name :: string
  Description :: string
  Type :: string
  Args :: "string list"
  Buckets :: "float64 list"

subsection \<open>newMetric\<close>

text \<open>
  The \<open>switch\<close> on \<open>m.Type\<close> has two cases and no default: for any other string the
  variable \<open>metric\<close> keeps its zero value, the nil interface, and is returned.
  \<open>append(opts.Buckets, m.Buckets...)\<close> onto the nil slice yields the elements of
  \<open>m.Buckets\<close> in order; when \<open>m.Buckets\<close> has length 0 the field stays nil, which as a
  sequence is the empty list.
\<close>

definition newMetric :: "metric \<Rightarrow> string \<Rightarrow> Collector option" where
  "newMetric m subsystem =
     (if Type m = ''counter_vec'' then
        Some (CounterVecPtr (NewCounterVec
          \<lparr>c_Namespace = [], c_Subsystem = subsystem, c_Name = Name m, c_Help = Description m\<rparr>
          (Args m)))
      else if Type m = ''histogram_vec'' then
        (let opts = \<lparr>h_Namespace = [], h_Subsystem = subsystem, h_Name = Name m,
                     h_Help = Description m, h_Buckets = []\<rparr>;
             opts = (if length (Buckets m) > 0
                     then opts\<lparr>h_Buckets := h_Buckets opts @ Buckets m\<rparr> else opts)
         in Some (HistogramVecPtr (NewHistogramVec opts (Args m))))
      else None)"

subsection \<open>The handle\<close>

text \<open>
  The struct \<open>prometheusMetrics\<close> has one typed pointer per metric; a nil pointer is
  \<open>None\<close>.
\<close>

record prometheusMetrics =
  userRecordsPutCnt :: "CounterVec option"
  userRecordsDataPutSz :: "HistogramVec option"
  kinesisRecordsPutCnt :: "CounterVec option"
  kinesisRecordsDataPutSz :: "HistogramVec option"
  errorsByCodeCnt :: "CounterVec option"
  allErrorsCnt :: "CounterVec option"
  retriesPerRecordSum :: "HistogramVec option"
  bufferingTimeDur :: "HistogramVec option"
  requestTimeDur :: "HistogramVec option"
  userRecordsPerKinesisRecordSum :: "HistogramVec option"
  kinesisRecordsPerPutRecordsRequestSum :: "HistogramVec option"

subsection \<open>The descriptors of getMetrics\<close>

text \<open>
  \<open>getMetrics\<close> allocates eleven descriptors and keeps a pointer to each in a local
  variable. The pointers are the values of \<open>metricRef\<close>, named after the variables (the
  names themselves are taken by the fields of the handle); the descriptors live in a
  store indexed by pointer, so that the comparison of pointers in the \<open>switch\<close> and the
  assignment through the pointer at the end of the loop body are what the source does.
  \<open>alloc\<close> gives the composite literal each pointer refers to when it is created; a field
  the literal leaves out has its zero value.
\<close>

datatype metricRef =
    userRecordsPutCnt_ref
  | userRecordsDataPutSz_ref
  | kinesisRecordsPutCnt_ref
  | kinesisRecordsDataPutSz_ref
  | errorsByCodeCnt_ref
  | allErrorsCnt_ref
  | retriesPerRecordSum_ref
  | bufferingTimeDur_ref
  | requestTimeDur_ref
  | userRecordsPerKinesisRecordSum_ref
  | kinesisRecordsPerPutRecordsRequestSum_ref

fun alloc :: "metricRef \<Rightarrow> metric" where
  "alloc userRecordsPutCnt_ref =
     \<lparr>MetricCollector = None,
      ID = ''userRecordsPutCnt'',
      Name = ''user_records_put_total'',
      Description = ''Count of how many logical user records were received by the KPL core for put operations.'',
      Type = ''counter_vec'',
      Args = [''stream''],
      Buckets = []\<rparr>"
| "alloc userRecordsDataPutSz_ref =
     \<lparr>MetricCollector = None,
      ID = ''userRecordsDataPutSz'',
      Name = ''user_records_data_put_bytes'',
      Description = ''Bytes in the logical user records were received by the KPL core for put operations.'',
      Type = ''histogram_vec'',
      Args = [''stream''],
      Buckets = sizeByteBuckets\<rparr>"
| "alloc kinesisRecordsPutCnt_ref =
     \<lparr>MetricCollector = None,
      ID = ''kinesisRecordsPutCnt'',
      Name = ''kinesis_records_put_total'',
      Description = ''Count of how many Kinesis Data Streams records were put successfully (each Kinesis Data Streams record can contain multiple user records).'',
      Type = ''counter_vec'',
      Args = [''stream'', ''shard''],
      Buckets = []\<rparr>"
| "alloc kinesisRecordsDataPutSz_ref =
     \<lparr>MetricCollector = None,
      ID = ''kinesisRecordsDataPutSz'',
      Name = ''kinesis_records_data_put_bytes'',
      Description = ''Bytes in the Kinesis Data Streams records.'',
      Type = ''histogram_vec'',
      Args = [''stream''],
      Buckets = sizeByteBuckets\<rparr>"
| "alloc errorsByCodeCnt_ref =
     \<lparr>MetricCollector = None,
      ID = ''errorsByCodeCnt'',
      Name = ''errors_by_code_total'',
      Description = ''Count of each type of error code.'',
      Type = ''counter_vec'',
      Args = [''stream'', ''code''],
      Buckets = []\<rparr>"
| "alloc allErrorsCnt_ref =
     \<lparr>MetricCollector = None,
      ID = ''allErrorsCnt'',
      Name = ''errors_total'',
      Description = ''This is triggered by the same errors as Errors by Code, but does not distinguish between types.'',
      Type = ''counter_vec'',
      Args = [''stream''],
      Buckets = []\<rparr>"
| "alloc retriesPerRecordSum_ref =
     \<lparr>MetricCollector = None,
      ID = ''retriesPerRecordSum'',
      Name = ''retries_per_record'',
      Description = ''Number of retries performed per kinesis record. Zero is emitted for records that succeed in one try.'',
      Type = ''histogram_vec'',
      Args = [''stream''],
      Buckets = []\<rparr>"
| "alloc bufferingTimeDur_ref =
     \<lparr>MetricCollector = None,
      ID = ''bufferingTimeDur'',
      Name = ''buffering_time_milliseconds'',
      Description = ''The time between a user record arriving at the KPL and leaving for the backend.'',
      Type = ''histogram_vec'',
      Args = [''stream''],
      Buckets = timeMillisecondBuckets\<rparr>"
| "alloc requestTimeDur_ref =
     \<lparr>MetricCollector = None,
      ID = ''requestTimeDur'',
      Name = ''request_time_milliseconds'',
      Description = ''The time it takes to perform PutRecordsRequests.'',
      Type = ''histogram_vec'',
      Args = [''stream''],
      Buckets = timeMillisecondBuckets\<rparr>"
| "alloc userRecordsPerKinesisRecordSum_ref =
     \<lparr>MetricCollector = None,
      ID = ''userRecordsPerKinesisRecordSum'',
      Name = ''user_records_per_kinesis_record'',
      Description = ''The number of logical user records aggregated into a single Kinesis Data Streams record.'',
      Type = ''histogram_vec'',
      Args = [''stream''],
      Buckets = sizeByteBuckets\<rparr>"
| "alloc kinesisRecordsPerPutRecordsRequestSum_ref =
     \<lparr>MetricCollector = None,
      ID = ''kinesisRecordsPerPutRecordsRequestSum'',
      Name = ''kinesis_records_per_put_records_request'',
      Description = ''The number of Kinesis Data Streams records aggregated into a single PutRecordsRequest.'',
      Type = ''histogram_vec'',
      Args = [''stream''],
      Buckets = sizeByteBuckets\<rparr>"

definition metricList :: "metricRef list" where
  "metricList =
     [userRecordsPutCnt_ref,
      userRecordsDataPutSz_ref,
      kinesisRecordsPutCnt_ref,
      kinesisRecordsDataPutSz_ref,
      errorsByCodeCnt_ref,
      allErrorsCnt_ref,
      retriesPerRecordSum_ref,
      bufferingTimeDur_ref,
      requestTimeDur_ref,
      userRecordsPerKinesisRecordSum_ref,
      kinesisRecordsPerPutRecordsRequestSum_ref]"

subsection \<open>The loop of getMetrics\<close>

text \<open>
  A type assertion \<open>metric.(*prometheus.CounterVec)\<close> panics when the dynamic type of the
  interface value is another one, or when the value is nil.
\<close>

datatype error = InterfaceConversionPanic

fun assertCounterVec :: "Collector option \<Rightarrow> error + CounterVec" where
  "assertCounterVec (Some (CounterVecPtr v)) = Inr v"
| "assertCounterVec _ = Inl InterfaceConversionPanic"

fun assertHistogramVec :: "Collector option \<Rightarrow> error + HistogramVec" where
  "assertHistogramVec (Some (HistogramVecPtr v)) = Inr v"
| "assertHistogramVec _ = Inl InterfaceConversionPanic"

text \<open>The \<open>switch metricDef\<close>: one case per pointer, each assigning one field.\<close>

fun assign ::
  "metricRef \<Rightarrow> Collector option \<Rightarrow> prometheusMetrics \<Rightarrow> error + prometheusMetrics" where
  "assign userRecordsPutCnt_ref c p =
     (case assertCounterVec c of Inl e \<Rightarrow> Inl e
      | Inr v \<Rightarrow> Inr (p\<lparr>userRecordsPutCnt := Some v\<rparr>))"
| "assign userRecordsDataPutSz_ref c p =
     (case assertHistogramVec c of Inl e \<Rightarrow> Inl e
      | Inr v \<Rightarrow> Inr (p\<lparr>userRecordsDataPutSz := Some v\<rparr>))"
| "assign kinesisRecordsPutCnt_ref c p =
     (case assertCounterVec c of Inl e \<Rightarrow> Inl e
      | Inr v \<Rightarrow> Inr (p\<lparr>kinesisRecordsPutCnt := Some v\<rparr>))"
| "assign kinesisRecordsDataPutSz_ref c p =
     (case assertHistogramVec c of Inl e \<Rightarrow> Inl e
      | Inr v \<Rightarrow> Inr (p\<lparr>kinesisRecordsDataPutSz := Some v\<rparr>))"
| "assign errorsByCodeCnt_ref c p =
     (case assertCounterVec c of Inl e \<Rightarrow> Inl e
      | Inr v \<Rightarrow> Inr (p\<lparr>errorsByCodeCnt := Some v\<rparr>))"
| "assign allErrorsCnt_ref c p =
     (case assertCounterVec c of Inl e \<Rightarrow> Inl e
      | Inr v \<Rightarrow> Inr (p\<lparr>allErrorsCnt := Some v\<rparr>))"
| "assign retriesPerRecordSum_ref c p =
     (case assertHistogramVec c of Inl e \<Rightarrow> Inl e
      | Inr v \<Rightarrow> Inr (p\<lparr>retriesPerRecordSum := Some v\<rparr>))"
| "assign bufferingTimeDur_ref c p =
     (case assertHistogramVec c of Inl e \<Rightarrow> Inl e
      | Inr v \<Rightarrow> Inr (p\<lparr>bufferingTimeDur := Some v\<rparr>))"
| "assign requestTimeDur_ref c p =
     (case assertHistogramVec c of Inl e \<Rightarrow> Inl e
      | Inr v \<Rightarrow> Inr (p\<lparr>requestTimeDur := Some v\<rparr>))"
| "assign userRecordsPerKinesisRecordSum_ref c p =
     (case assertHistogramVec c of Inl e \<Rightarrow> Inl e
      | Inr v \<Rightarrow> Inr (p\<lparr>userRecordsPerKinesisRecordSum := Some v\<rparr>))"
| "assign kinesisRecordsPerPutRecordsRequestSum_ref c p =
     (case assertHistogramVec c of Inl e \<Rightarrow> Inl e
      | Inr v \<Rightarrow> Inr (p\<lparr>kinesisRecordsPerPutRecordsRequestSum := Some v\<rparr>))"

text \<open>
  The registry and the logger are collaborators from outside the file. The registry is a
  parameter: a function from its state and the collector offered to the error it returns
  (\<open>None\<close> for a nil error) and its next state, of any state type and any error type. The
  logger is represented by the calls of its \<open>Error\<close> method, in order, each with its
  message and its cause.
\<close>

record ('r, 'e) run =
  registry :: 'r
  logCalls :: "(string \<times> 'e) list"
  handle :: prometheusMetrics
  descriptors :: "metricRef \<Rightarrow> metric"

definition notRegisteredMessage :: "string \<Rightarrow> string" where
  \<comment> \<open>\<open>fmt.Sprintf("%s could not be registered in Prometheus", name)\<close>\<close>
  "notRegisteredMessage name = name @ '' could not be registered in Prometheus''"

definition loopBody ::
  "('r \<Rightarrow> Collector option \<Rightarrow> 'e option \<times> 'r) \<Rightarrow> metricRef \<Rightarrow> ('r, 'e) run
   \<Rightarrow> error + ('r, 'e) run" where
  "loopBody Register metricDef st =
     (let m = newMetric (descriptors st metricDef) systemName;
          (err, r') = Register (registry st) m;
          calls = (case err of
                     None \<Rightarrow> logCalls st
                   | Some e \<Rightarrow>
                       logCalls st @ [(notRegisteredMessage (Name (descriptors st metricDef)), e)])
      in case assign metricDef m (handle st) of
           Inl x \<Rightarrow> Inl x
         | Inr p' \<Rightarrow>
             Inr \<lparr>registry = r', logCalls = calls, handle = p',
                  descriptors = (descriptors st)
                    (metricDef := (descriptors st metricDef)\<lparr>MetricCollector := m\<rparr>)\<rparr>)"

fun rangeLoop ::
  "('r \<Rightarrow> Collector option \<Rightarrow> 'e option \<times> 'r) \<Rightarrow> metricRef list \<Rightarrow> ('r, 'e) run
   \<Rightarrow> error + ('r, 'e) run" where
  "rangeLoop Register [] st = Inr st"
| "rangeLoop Register (metricDef # rest) st =
     (case loopBody Register metricDef st of
        Inl x \<Rightarrow> Inl x
      | Inr st' \<Rightarrow> rangeLoop Register rest st')"

text \<open>
  \<open>getMetrics\<close> returns the handle; the model returns the whole final state, of which
  \<open>handle\<close> is the returned struct, so that the registry, the logger's calls and the
  descriptors can be spoken about as well.
\<close>

definition zeroHandle :: prometheusMetrics where
  \<comment> \<open>\<open>&prometheusMetrics{}\<close>: every pointer nil\<close>
  "zeroHandle =
     \<lparr>userRecordsPutCnt = None,
      userRecordsDataPutSz = None,
      kinesisRecordsPutCnt = None,
      kinesisRecordsDataPutSz = None,
      errorsByCodeCnt = None,
      allErrorsCnt = None,
      retriesPerRecordSum = None,
      bufferingTimeDur = None,
      requestTimeDur = None,
      userRecordsPerKinesisRecordSum = None,
      kinesisRecordsPerPutRecordsRequestSum = None\<rparr>"

definition getMetrics ::
  "('r \<Rightarrow> Collector option \<Rightarrow> 'e option \<times> 'r) \<Rightarrow> 'r \<Rightarrow> error + ('r, 'e) run" where
  "getMetrics Register r0 =
     rangeLoop Register metricList
       \<lparr>registry = r0, logCalls = [],
        handle = zeroHandle,
        descriptors = alloc\<rparr>"

subsection \<open>Vocabulary of the properties\<close>

text \<open>
  The definitions below are not code of the repository; the properties are stated with
  them. \<open>built d\<close> is the collector made from the descriptor that pointer \<open>d\<close> is
  given at allocation. \<open>outcomes\<close> and \<open>registerAll\<close> offer a list of collectors to a
  registry one after the other: the first collects what the registry answers, the second
  gives its last state. \<open>expectedCalls\<close> pairs descriptors with such answers and keeps,
  for each answer that is an error, the logger call due for it. \<open>fieldOf\<close> reads the
  field of the handle that the \<open>switch\<close> assigns for a pointer, \<open>fieldNamed\<close> the field
  of a given name, each as a value of the interface type again. \<open>declared\<close> says that
  the store holds, for every pointer, its literal up to the \<open>MetricCollector\<close> field.
  \<open>declaredFields\<close> are the six fields a composite literal of the source sets.
  \<open>optsName\<close> is the naming part of a collector's options: namespace, subsystem and
  name. \<open>populated\<close> says that no field of a handle is nil.
\<close>

definition built :: "metricRef \<Rightarrow> Collector option" where
  "built d = newMetric (alloc d) systemName"

fun outcomes ::
  "('r \<Rightarrow> Collector option \<Rightarrow> 'e option \<times> 'r) \<Rightarrow> 'r \<Rightarrow> Collector option list
   \<Rightarrow> 'e option list" where
  "outcomes Register r [] = []"
| "outcomes Register r (c # cs) = fst (Register r c) # outcomes Register (snd (Register r c)) cs"

fun registerAll ::
  "('r \<Rightarrow> Collector option \<Rightarrow> 'e option \<times> 'r) \<Rightarrow> 'r \<Rightarrow> Collector option list \<Rightarrow> 'r" where
  "registerAll Register r [] = r"
| "registerAll Register r (c # cs) = registerAll Register (snd (Register r c)) cs"

fun expectedCalls :: "metric list \<Rightarrow> 'e option list \<Rightarrow> (string \<times> 'e) list" where
  "expectedCalls (m # ms) (Some e # os) = (notRegisteredMessage (Name m), e) # expectedCalls ms os"
| "expectedCalls (m # ms) (None # os) = expectedCalls ms os"
| "expectedCalls _ _ = []"

fun fieldOf :: "metricRef \<Rightarrow> prometheusMetrics \<Rightarrow> Collector option" where
  "fieldOf userRecordsPutCnt_ref p = map_option CounterVecPtr (userRecordsPutCnt p)"
| "fieldOf userRecordsDataPutSz_ref p = map_option HistogramVecPtr (userRecordsDataPutSz p)"
| "fieldOf kinesisRecordsPutCnt_ref p = map_option CounterVecPtr (kinesisRecordsPutCnt p)"
| "fieldOf kinesisRecordsDataPutSz_ref p = map_option HistogramVecPtr (kinesisRecordsDataPutSz p)"
| "fieldOf errorsByCodeCnt_ref p = map_option CounterVecPtr (errorsByCodeCnt p)"
| "fieldOf allErrorsCnt_ref p = map_option CounterVecPtr (allErrorsCnt p)"
| "fieldOf retriesPerRecordSum_ref p = map_option HistogramVecPtr (retriesPerRecordSum p)"
| "fieldOf bufferingTimeDur_ref p = map_option HistogramVecPtr (bufferingTimeDur p)"
| "fieldOf requestTimeDur_ref p = map_option HistogramVecPtr (requestTimeDur p)"
| "fieldOf userRecordsPerKinesisRecordSum_ref p = map_option HistogramVecPtr (userRecordsPerKinesisRecordSum p)"
| "fieldOf kinesisRecordsPerPutRecordsRequestSum_ref p = map_option HistogramVecPtr (kinesisRecordsPerPutRecordsRequestSum p)"

definition declared :: "(metricRef \<Rightarrow> metric) \<Rightarrow> bool" where
  "declared h = (\<forall>d. (h d)\<lparr>MetricCollector := None\<rparr> = alloc d)"

definition fieldNamed :: "string \<Rightarrow> prometheusMetrics \<Rightarrow> Collector option" where
  "fieldNamed name p =
     (if name = ''userRecordsPutCnt'' then map_option CounterVecPtr (userRecordsPutCnt p)
      else if name = ''userRecordsDataPutSz'' then map_option HistogramVecPtr (userRecordsDataPutSz p)
      else if name = ''kinesisRecordsPutCnt'' then map_option CounterVecPtr (kinesisRecordsPutCnt p)
      else if name = ''kinesisRecordsDataPutSz'' then map_option HistogramVecPtr (kinesisRecordsDataPutSz p)
      else if name = ''errorsByCodeCnt'' then map_option CounterVecPtr (errorsByCodeCnt p)
      else if name = ''allErrorsCnt'' then map_option CounterVecPtr (allErrorsCnt p)
      else if name = ''retriesPerRecordSum'' then map_option HistogramVecPtr (retriesPerRecordSum p)
      else if name = ''bufferingTimeDur'' then map_option HistogramVecPtr (bufferingTimeDur p)
      else if name = ''requestTimeDur'' then map_option HistogramVecPtr (requestTimeDur p)
      else if name = ''userRecordsPerKinesisRecordSum'' then map_option HistogramVecPtr (userRecordsPerKinesisRecordSum p)
      else if name = ''kinesisRecordsPerPutRecordsRequestSum'' then map_option HistogramVecPtr (kinesisRecordsPerPutRecordsRequestSum p)
      else None)"

definition declaredFields ::
  "metric \<Rightarrow> string \<times> string \<times> string \<times> string \<times> string list \<times> float64 list" where
  "declaredFields m = (ID m, Name m, Description m, Type m, Args m, Buckets m)"

fun optsName :: "Collector \<Rightarrow> string \<times> string \<times> string" where
  "optsName (CounterVecPtr (NewCounterVec opts labels)) =
     (c_Namespace opts, c_Subsystem opts, c_Name opts)"
| "optsName (HistogramVecPtr (NewHistogramVec opts labels)) =
     (h_Namespace opts, h_Subsystem opts, h_Name opts)"

text \<open>
  A registry for running the pipeline twice: it holds the names it has accepted and
  refuses a collector whose name it holds, as the registry of section 4.3 of the
  specification does. It stands in for the process-wide registry of the client library.
\<close>

datatype registryError = AlreadyRegistered "string \<times> string \<times> string" | NilCollector

fun nameRegistry ::
  "(string \<times> string \<times> string) list \<Rightarrow> Collector option
   \<Rightarrow> registryError option \<times> (string \<times> string \<times> string) list" where
  "nameRegistry names None = (Some NilCollector, names)"
| "nameRegistry names (Some c) =
     (if optsName c \<in> set names then (Some (AlreadyRegistered (optsName c)), names)
      else (None, names @ [optsName c]))"

definition populated :: "prometheusMetrics \<Rightarrow> bool" where
  "populated p =
     (userRecordsPutCnt p \<noteq> None
      \<and> userRecordsDataPutSz p \<noteq> None
      \<and> kinesisRecordsPutCnt p \<noteq> None
      \<and> kinesisRecordsDataPutSz p \<noteq> None
      \<and> errorsByCodeCnt p \<noteq> None
      \<and> allErrorsCnt p \<noteq> None
      \<and> retriesPerRecordSum p \<noteq> None
      \<and> bufferingTimeDur p \<noteq> None
      \<and> requestTimeDur p \<noteq> None
      \<and> userRecordsPerKinesisRecordSum p \<noteq> None
      \<and> kinesisRecordsPerPutRecordsRequestSum p \<noteq> None)"

subsection \<open>newMetric on a store\<close>

text \<open>
  For the question of what \<open>newMetric\<close> shares with its argument, the same function is
  written once more on a store: a slice is a header (backing array, offset, length,
  capacity) or nil, the backing arrays live in a list indexed by address, and so do the
  descriptor structs, which \<open>newMetric\<close> reaches through the pointer \<open>m\<close>. The names of
  this level carry the suffix \<open>_s\<close>. The label names are kept as a value: \<open>m.Args\<close> is
  handed to the constructor as it is and \<open>newMetric\<close> itself does not write to it.

  \<open>go_append\<close> is the built-in \<open>append\<close> of the language: when the capacity of the slice
  suffices it writes the new elements into the backing array of the slice and returns a
  header on the same array; otherwise it allocates an array, copies the old elements and
  the new ones into it and returns a header on the new array. How much capacity beyond
  the needed length the runtime gives a new array is its own choice and is the parameter
  \<open>spare\<close>.
\<close>

type_synonym addr = nat

datatype slice = NilSlice | Slice addr nat nat nat

fun slen :: "slice \<Rightarrow> nat" where
  "slen NilSlice = 0"
| "slen (Slice a off n c) = n"

fun readSlice :: "float64 list list \<Rightarrow> slice \<Rightarrow> float64 list" where
  "readSlice h NilSlice = []"
| "readSlice h (Slice a off n c) = take n (drop off (h ! a))"

definition writeAt :: "float64 list \<Rightarrow> nat \<Rightarrow> float64 list \<Rightarrow> float64 list" where
  "writeAt arr i xs = take i arr @ xs @ drop (i + length xs) arr"

fun go_append ::
  "nat \<Rightarrow> float64 list list \<Rightarrow> slice \<Rightarrow> float64 list \<Rightarrow> slice \<times> float64 list list" where
  "go_append spare h NilSlice xs =
     (if xs = [] then (NilSlice, h)
      else (Slice (length h) 0 (length xs) (length xs + spare), h @ [xs @ replicate spare 0]))"
| "go_append spare h (Slice a off n c) xs =
     (if n + length xs \<le> c
      then (Slice a off (n + length xs) c, h[a := writeAt (h ! a) (off + n) xs])
      else (Slice (length h) 0 (n + length xs) (n + length xs + spare),
            h @ [take n (drop off (h ! a)) @ xs @ replicate spare 0]))"

record HistogramOpts_s =
  hs_Namespace :: string
  hs_Subsystem :: string
  hs_Name :: string
  hs_Help :: string
  hs_Buckets :: slice

datatype Collector_s =
    CounterVecPtr_s CounterVec
  | HistogramVecPtr_s HistogramOpts_s "string list"

record metric_s =
  MetricCollector_s :: "Collector_s option"
  ID_s :: string
  Name_s :: string
  Description_s :: string
  Type_s :: string
  Args_s :: "string list"
  Buckets_s :: slice

record memory =
  arrays :: "float64 list list"
  structs :: "metric_s list"

definition newMetric_s ::
  "nat \<Rightarrow> memory \<Rightarrow> addr \<Rightarrow> string \<Rightarrow> Collector_s option \<times> memory" where
  "newMetric_s spare mem m subsystem =
     (let d = structs mem ! m in
      if Type_s d = ''counter_vec'' then
        (Some (CounterVecPtr_s (NewCounterVec
           \<lparr>c_Namespace = [], c_Subsystem = subsystem, c_Name = Name_s d,
            c_Help = Description_s d\<rparr>
           (Args_s d))), mem)
      else if Type_s d = ''histogram_vec'' then
        (let opts = \<lparr>hs_Namespace = [], hs_Subsystem = subsystem, hs_Name = Name_s d,
                     hs_Help = Description_s d, hs_Buckets = NilSlice\<rparr>
         in if slen (Buckets_s d) > 0 then
              (let (s, h) = go_append spare (arrays mem) (hs_Buckets opts)
                              (readSlice (arrays mem) (Buckets_s d))
               in (Some (HistogramVecPtr_s (opts\<lparr>hs_Buckets := s\<rparr>) (Args_s d)),
                   mem\<lparr>arrays := h\<rparr>))
            else (Some (HistogramVecPtr_s opts (Args_s d)), mem))
      else (None, mem))"

text \<open>
  To state the properties: \<open>validSlice\<close> says that a header lies within an allocated
  array; \<open>absMetric\<close> and \<open>absCollector\<close> read a descriptor and a collector of the store
  as the values of the sections above; \<open>bucketsOf\<close> is the slice in a collector's
  options (nil for a counter and for no collector); \<open>sharesArray\<close> says that two headers
  are on the same backing array.
\<close>

fun validSlice :: "float64 list list \<Rightarrow> slice \<Rightarrow> bool" where
  "validSlice h NilSlice = True"
| "validSlice h (Slice a off n c) = (a < length h \<and> n \<le> c \<and> off + c \<le> length (h ! a))"

definition absMetric :: "float64 list list \<Rightarrow> metric_s \<Rightarrow> metric" where
  "absMetric h d =
     \<lparr>MetricCollector = None, ID = ID_s d, Name = Name_s d, Description = Description_s d,
      Type = Type_s d, Args = Args_s d, Buckets = readSlice h (Buckets_s d)\<rparr>"

fun absCollector :: "float64 list list \<Rightarrow> Collector_s \<Rightarrow> Collector" where
  "absCollector h (CounterVecPtr_s v) = CounterVecPtr v"
| "absCollector h (HistogramVecPtr_s opts labels) =
     HistogramVecPtr (NewHistogramVec
       \<lparr>h_Namespace = hs_Namespace opts, h_Subsystem = hs_Subsystem opts,
        h_Name = hs_Name opts, h_Help = hs_Help opts,
        h_Buckets = readSlice h (hs_Buckets opts)\<rparr> labels)"

fun bucketsOf :: "Collector_s option \<Rightarrow> slice" where
  "bucketsOf (Some (HistogramVecPtr_s opts labels)) = hs_Buckets opts"
| "bucketsOf _ = NilSlice"

fun sharesArray :: "slice \<Rightarrow> slice \<Rightarrow> bool" where
  "sharesArray (Slice a off n c) (Slice a' off' n' c') = (a = a')"
| "sharesArray _ _ = False"

section \<open>Properties\<close>

text \<open>
  C5. The time-bucket constant is the sequence 0.01, 0.1, 0.25, 0.5, 1, 2.5, 5, 10, 100,
  1000, 10000, 60000 and the size-bucket constant is the sequence 1, 16, 64, 256, 512,
  1024, 16384, 65536, 262144, 1048576, 4194304, each in that order (stated here with the
  fractions written out and with the lengths 12 and 11).
\<close>

theorem bucket_constants:
  "timeMillisecondBuckets =
     [1/100, 1/10, 1/4, 1/2, 1, 5/2, 5, 10, 100, 1000, 10000, 60000]
   \<and> length timeMillisecondBuckets = 12
   \<and> sizeByteBuckets =
     [1, 2^4, 2^6, 2^8, 2^9, 2^10, 2^14, 2^16, 2^18, 2^20, 2^22]
   \<and> length sizeByteBuckets = 11"
  by (simp add: timeMillisecondBuckets_def sizeByteBuckets_def)

subsection \<open>The collector factory\<close>

lemma newMetric_counter:
  "Type m = ''counter_vec'' \<Longrightarrow>
   newMetric m sub = Some (CounterVecPtr (NewCounterVec
     \<lparr>c_Namespace = [], c_Subsystem = sub, c_Name = Name m, c_Help = Description m\<rparr>
     (Args m)))"
  by (simp add: newMetric_def)

lemma newMetric_histogram:
  "Type m = ''histogram_vec'' \<Longrightarrow>
   newMetric m sub = Some (HistogramVecPtr (NewHistogramVec
     \<lparr>h_Namespace = [], h_Subsystem = sub, h_Name = Name m, h_Help = Description m,
      h_Buckets = Buckets m\<rparr>
     (Args m)))"
  by (simp add: newMetric_def Let_def)

text \<open>
  C1, as the code has it. For a descriptor whose \<open>Type\<close> is neither \<open>counter_vec\<close> nor
  \<open>histogram_vec\<close>, \<open>newMetric\<close> does not fail: it returns the nil collector, having
  constructed neither a counter nor a histogram.
\<close>

theorem newMetric_unknown_type_nil:
  "Type m \<noteq> ''counter_vec'' \<Longrightarrow> Type m \<noteq> ''histogram_vec'' \<Longrightarrow> newMetric m sub = None"
  by (simp add: newMetric_def)

theorem newMetric_unknown_type_nil_witness:
  "''gauge_vec'' \<noteq> ''counter_vec'' \<and> ''gauge_vec'' \<noteq> ''histogram_vec'' \<and>
   newMetric \<lparr>MetricCollector = None, ID = ''queueDepth'', Name = ''queue_depth'',
     Description = ''Records waiting.'', Type = ''gauge_vec'', Args = [''stream''],
     Buckets = []\<rparr> ''go_kinesis_producer'' = None"
  using newMetric_unknown_type_nil
    [of "\<lparr>MetricCollector = None, ID = ''queueDepth'', Name = ''queue_depth'',
     Description = ''Records waiting.'', Type = ''gauge_vec'', Args = [''stream''],
     Buckets = []\<rparr>" "''go_kinesis_producer''"]
  by simp

text \<open>
  C1, as the spec states it, fails: the call below is the construction of a collector
  from a descriptor of kind \<open>gauge_vec\<close>; it returns normally, and what it returns is the
  nil interface value (\<open>None\<close>), not an error.
\<close>

theorem newMetric_unknown_type_counterexample:
  "Type \<lparr>MetricCollector = None, ID = ''queueDepth'', Name = ''queue_depth'',
     Description = ''Records waiting.'', Type = ''gauge_vec'', Args = [''stream''],
     Buckets = []\<rparr> \<noteq> ''counter_vec''
   \<and> Type \<lparr>MetricCollector = None, ID = ''queueDepth'', Name = ''queue_depth'',
     Description = ''Records waiting.'', Type = ''gauge_vec'', Args = [''stream''],
     Buckets = []\<rparr> \<noteq> ''histogram_vec''
   \<and> newMetric \<lparr>MetricCollector = None, ID = ''queueDepth'', Name = ''queue_depth'',
     Description = ''Records waiting.'', Type = ''gauge_vec'', Args = [''stream''],
     Buckets = []\<rparr> systemName = None"
  by (simp add: newMetric_def)

text \<open>
  C4. For a descriptor of type \<open>histogram_vec\<close> the collector is a histogram whose
  options carry, when \<open>Buckets\<close> is not empty, exactly the declared boundaries in the
  declared order, and, when \<open>Buckets\<close> is empty, no boundaries at all (the field keeps
  its zero value, for which the client library takes its default boundaries).
\<close>

theorem newMetric_histogram_buckets:
  "Type m = ''histogram_vec'' \<Longrightarrow>
   (\<exists>opts. newMetric m sub = Some (HistogramVecPtr (NewHistogramVec opts (Args m)))
      \<and> (Buckets m \<noteq> [] \<longrightarrow> h_Buckets opts = Buckets m)
      \<and> (Buckets m = [] \<longrightarrow> h_Buckets opts = []))"
  by (simp add: newMetric_def Let_def)

theorem newMetric_histogram_buckets_witness:
  "(\<exists>opts. newMetric \<lparr>MetricCollector = None, ID = ''a'', Name = ''lat'', Description = ''d'',
        Type = ''histogram_vec'', Args = [''stream''], Buckets = [5, 1, 2.5]\<rparr> ''s''
      = Some (HistogramVecPtr (NewHistogramVec opts [''stream'']))
      \<and> h_Buckets opts = [5, 1, 2.5])
   \<and> (\<exists>opts. newMetric \<lparr>MetricCollector = None, ID = ''a'', Name = ''lat'', Description = ''d'',
        Type = ''histogram_vec'', Args = [''stream''], Buckets = []\<rparr> ''s''
      = Some (HistogramVecPtr (NewHistogramVec opts [''stream'']))
      \<and> h_Buckets opts = [])"
  using newMetric_histogram_buckets
    [of "\<lparr>MetricCollector = None, ID = ''a'', Name = ''lat'', Description = ''d'',
        Type = ''histogram_vec'', Args = [''stream''], Buckets = [5, 1, 2.5]\<rparr>" "''s''"]
    newMetric_histogram_buckets
    [of "\<lparr>MetricCollector = None, ID = ''a'', Name = ''lat'', Description = ''d'',
        Type = ''histogram_vec'', Args = [''stream''], Buckets = []\<rparr>" "''s''"]
  by simp

text \<open>
  C9. For a descriptor of type \<open>counter_vec\<close> the collector does not depend on the
  \<open>Buckets\<close> field: whatever two bucket lists are put into the descriptor, the same
  counter is built, from the subsystem, the name, the description and the label names
  alone.
\<close>

theorem newMetric_counter_ignores_buckets:
  "Type m = ''counter_vec'' \<Longrightarrow>
   newMetric (m\<lparr>Buckets := b1\<rparr>) sub = newMetric (m\<lparr>Buckets := b2\<rparr>) sub
   \<and> newMetric (m\<lparr>Buckets := b1\<rparr>) sub = Some (CounterVecPtr (NewCounterVec
        \<lparr>c_Namespace = [], c_Subsystem = sub, c_Name = Name m, c_Help = Description m\<rparr>
        (Args m)))"
  by (simp add: newMetric_def)

theorem newMetric_counter_ignores_buckets_witness:
  "newMetric \<lparr>MetricCollector = None, ID = ''a'', Name = ''n'', Description = ''d'',
        Type = ''counter_vec'', Args = [''stream''], Buckets = [1, 2]\<rparr> ''s''
   = newMetric \<lparr>MetricCollector = None, ID = ''a'', Name = ''n'', Description = ''d'',
        Type = ''counter_vec'', Args = [''stream''], Buckets = []\<rparr> ''s''
   \<and> newMetric \<lparr>MetricCollector = None, ID = ''a'', Name = ''n'', Description = ''d'',
        Type = ''counter_vec'', Args = [''stream''], Buckets = [1, 2]\<rparr> ''s''
   = Some (CounterVecPtr (NewCounterVec
        \<lparr>c_Namespace = [], c_Subsystem = ''s'', c_Name = ''n'', c_Help = ''d''\<rparr> [''stream'']))"
  using newMetric_counter_ignores_buckets
    [of "\<lparr>MetricCollector = None, ID = ''a'', Name = ''n'', Description = ''d'',
        Type = ''counter_vec'', Args = [''stream''], Buckets = [7]\<rparr>" "[1, 2]" "''s''" "[]"]
  by auto

subsection \<open>The loop\<close>

lemma alloc_nil_collector: "MetricCollector (alloc d) = None"
  by (cases d) simp_all

lemma newMetric_ignores_collector: "newMetric (m\<lparr>MetricCollector := c\<rparr>) sub = newMetric m sub"
  by (simp add: newMetric_def Let_def)

lemma alloc_Type:
  "Type (alloc d) = ''counter_vec'' \<or> Type (alloc d) = ''histogram_vec''"
  by (cases d) simp_all

lemma assign_frame:
  "assign d c p = Inr p' \<Longrightarrow> d' \<noteq> d \<Longrightarrow> fieldOf d' p' = fieldOf d' p"
  by (cases d; cases d'; auto split: sum.splits)

lemma assign_field:
  "assign d c p = Inr p' \<Longrightarrow> fieldOf d p' = c"
  by (cases d; cases c rule: assertCounterVec.cases; auto)

lemma assign_built_ok: "\<exists>p'. assign d (built d) p = Inr p'"
  by (cases d) (simp_all add: built_def newMetric_counter newMetric_histogram)

lemma declared_alloc: "declared alloc"
  unfolding declared_def
proof
  fix d show "(alloc d)\<lparr>MetricCollector := None\<rparr> = alloc d"
    by (cases d) simp_all
qed

lemma declared_newMetric: "declared h \<Longrightarrow> newMetric (h d) systemName = built d"
proof -
  assume "declared h"
  then have "alloc d = (h d)\<lparr>MetricCollector := None\<rparr>" by (simp add: declared_def)
  then show ?thesis by (simp add: built_def newMetric_ignores_collector)
qed

lemma declared_Name: "declared h \<Longrightarrow> Name (h d) = Name (alloc d)"
proof -
  assume "declared h"
  then have "alloc d = (h d)\<lparr>MetricCollector := None\<rparr>" by (simp add: declared_def)
  then show ?thesis by simp
qed

lemma declared_store:
  assumes "declared h"
  shows "(h d)\<lparr>MetricCollector := c\<rparr> = (alloc d)\<lparr>MetricCollector := c\<rparr>"
proof -
  from assms have "alloc d = (h d)\<lparr>MetricCollector := None\<rparr>" by (simp add: declared_def)
  then show ?thesis by simp
qed

lemma declared_update:
  "declared h \<Longrightarrow> declared (h(d := (alloc d)\<lparr>MetricCollector := c\<rparr>))"
  using declared_alloc by (simp add: declared_def)

lemma loopBody_run:
  assumes "declared (descriptors st)"
  shows "\<exists>st'. loopBody R d st = Inr st'
     \<and> registry st' = snd (R (registry st) (built d))
     \<and> logCalls st' = logCalls st @ expectedCalls [alloc d] [fst (R (registry st) (built d))]
     \<and> fieldOf d (handle st') = built d
     \<and> (\<forall>d'. d' \<noteq> d \<longrightarrow> fieldOf d' (handle st') = fieldOf d' (handle st))
     \<and> descriptors st' = (descriptors st)(d := (alloc d)\<lparr>MetricCollector := built d\<rparr>)"
proof -
  obtain p' where p': "assign d (built d) (handle st) = Inr p'"
    using assign_built_ok by blast
  have calls: "(case fst (R (registry st) (built d)) of None \<Rightarrow> logCalls st
        | Some e \<Rightarrow> logCalls st @ [(notRegisteredMessage (Name (alloc d)), e)])
      = logCalls st @ expectedCalls [alloc d] [fst (R (registry st) (built d))]"
    by (cases "fst (R (registry st) (built d))") simp_all
  show ?thesis
    using p' assign_field [OF p'] assign_frame [OF p'] calls
    by (simp add: loopBody_def Let_def declared_newMetric [OF assms] declared_Name [OF assms]
        declared_store [OF assms] split_beta cong: option.case_cong)
qed

lemma expectedCalls_snoc_aux:
  "expectedCalls (m # ms) (x # os) = expectedCalls [m] [x] @ expectedCalls ms os"
  by (cases x) simp_all

lemma rangeLoop_run:
  "declared (descriptors st) \<Longrightarrow>
   \<exists>st'. rangeLoop R ds st = Inr st'
     \<and> registry st' = registerAll R (registry st) (map built ds)
     \<and> logCalls st' = logCalls st
          @ expectedCalls (map alloc ds) (outcomes R (registry st) (map built ds))
     \<and> (\<forall>d. fieldOf d (handle st') = (if d \<in> set ds then built d else fieldOf d (handle st)))
     \<and> (\<forall>d. descriptors st' d =
          (if d \<in> set ds then (alloc d)\<lparr>MetricCollector := built d\<rparr> else descriptors st d))"
proof (induction ds arbitrary: st)
  case Nil
  then show ?case by simp
next
  case (Cons d ds)
  from loopBody_run [OF Cons.prems, of R d] obtain st1 where
    body: "loopBody R d st = Inr st1"
    and r1: "registry st1 = snd (R (registry st) (built d))"
    and l1: "logCalls st1 = logCalls st @ expectedCalls [alloc d] [fst (R (registry st) (built d))]"
    and f1: "fieldOf d (handle st1) = built d"
    and f1': "\<forall>d'. d' \<noteq> d \<longrightarrow> fieldOf d' (handle st1) = fieldOf d' (handle st)"
    and h1: "descriptors st1 = (descriptors st)(d := (alloc d)\<lparr>MetricCollector := built d\<rparr>)"
    by blast
  have "declared (descriptors st1)"
    using Cons.prems by (simp add: h1 declared_update)
  from Cons.IH [OF this] obtain st' where
    loop: "rangeLoop R ds st1 = Inr st'"
    and r': "registry st' = registerAll R (registry st1) (map built ds)"
    and l': "logCalls st' = logCalls st1
          @ expectedCalls (map alloc ds) (outcomes R (registry st1) (map built ds))"
    and f': "\<forall>x. fieldOf x (handle st') = (if x \<in> set ds then built x else fieldOf x (handle st1))"
    and h': "\<forall>x. descriptors st' x =
          (if x \<in> set ds then (alloc x)\<lparr>MetricCollector := built x\<rparr> else descriptors st1 x)"
    by blast
  have "rangeLoop R (d # ds) st = Inr st'" by (simp add: body loop)
  moreover have "registry st' = registerAll R (registry st) (map built (d # ds))"
    by (simp add: r' r1)
  moreover have "logCalls st' = logCalls st
          @ expectedCalls (map alloc (d # ds)) (outcomes R (registry st) (map built (d # ds)))"
    by (simp add: l' l1 r1 expectedCalls_snoc_aux [of "alloc d" "map alloc ds"])
  moreover have "\<forall>x. fieldOf x (handle st') =
      (if x \<in> set (d # ds) then built x else fieldOf x (handle st))"
    using f' f1 f1' by simp
  moreover have "\<forall>x. descriptors st' x =
          (if x \<in> set (d # ds) then (alloc x)\<lparr>MetricCollector := built x\<rparr> else descriptors st x)"
    using h' h1 by simp
  ultimately show ?case by blast
qed

lemma metricList_all: "d \<in> set metricList"
  by (cases d) (simp_all add: metricList_def)

lemma getMetrics_run:
  "\<exists>st. getMetrics R r0 = Inr st
     \<and> registry st = registerAll R r0 (map built metricList)
     \<and> logCalls st = expectedCalls (map alloc metricList) (outcomes R r0 (map built metricList))
     \<and> (\<forall>d. fieldOf d (handle st) = built d)
     \<and> (\<forall>d. descriptors st d = (alloc d)\<lparr>MetricCollector := built d\<rparr>)"
  unfolding getMetrics_def
  using rangeLoop_run
    [of "\<lparr>registry = r0, logCalls = [], handle = zeroHandle, descriptors = alloc\<rparr>"
      R metricList]
  by (simp add: declared_alloc metricList_all)

lemma fieldNamed_ID: "fieldNamed (ID (alloc d)) p = fieldOf d p"
  by (cases d) (simp_all add: fieldNamed_def)

lemma built_not_nil: "built d \<noteq> None"
  using alloc_Type [of d] by (auto simp: built_def newMetric_counter newMetric_histogram)

lemma built_optsName: "\<exists>c. built d = Some c \<and> optsName c = ([], systemName, Name (alloc d))"
  using alloc_Type [of d] by (auto simp: built_def newMetric_counter newMetric_histogram)

text \<open>
  C2. Whatever the registry answers to each registration (no error, a name conflict, any
  other error), \<open>getMetrics\<close> returns, and in the handle it returns none of the eleven
  fields is nil: the field that belongs to each of the eleven descriptors holds the
  collector that \<open>newMetric\<close> produced for that descriptor, which is also what the field
  named by the \<open>ID\<close> of each descriptor of the catalog holds.
\<close>

theorem getMetrics_handle_populated:
  "\<exists>st. getMetrics Register r0 = Inr st
     \<and> userRecordsPutCnt (handle st) \<noteq> None
     \<and> userRecordsDataPutSz (handle st) \<noteq> None
     \<and> kinesisRecordsPutCnt (handle st) \<noteq> None
     \<and> kinesisRecordsDataPutSz (handle st) \<noteq> None
     \<and> errorsByCodeCnt (handle st) \<noteq> None
     \<and> allErrorsCnt (handle st) \<noteq> None
     \<and> retriesPerRecordSum (handle st) \<noteq> None
     \<and> bufferingTimeDur (handle st) \<noteq> None
     \<and> requestTimeDur (handle st) \<noteq> None
     \<and> userRecordsPerKinesisRecordSum (handle st) \<noteq> None
     \<and> kinesisRecordsPerPutRecordsRequestSum (handle st) \<noteq> None
     \<and> (\<forall>d. fieldOf d (handle st) \<noteq> None
            \<and> fieldOf d (handle st) = newMetric (alloc d) systemName)
     \<and> (\<forall>m \<in> set (map alloc metricList).
          fieldNamed (ID m) (handle st) \<noteq> None
          \<and> fieldNamed (ID m) (handle st) = newMetric m systemName)"
proof -
  from getMetrics_run [of Register r0] obtain st where
    run: "getMetrics Register r0 = Inr st" and f: "fieldOf d (handle st) = built d" for d
    by blast
  have n0: "userRecordsPutCnt (handle st) \<noteq> None"
    using f [of userRecordsPutCnt_ref] built_not_nil [of userRecordsPutCnt_ref] by auto
  have n1: "userRecordsDataPutSz (handle st) \<noteq> None"
    using f [of userRecordsDataPutSz_ref] built_not_nil [of userRecordsDataPutSz_ref] by auto
  have n2: "kinesisRecordsPutCnt (handle st) \<noteq> None"
    using f [of kinesisRecordsPutCnt_ref] built_not_nil [of kinesisRecordsPutCnt_ref] by auto
  have n3: "kinesisRecordsDataPutSz (handle st) \<noteq> None"
    using f [of kinesisRecordsDataPutSz_ref] built_not_nil [of kinesisRecordsDataPutSz_ref] by auto
  have n4: "errorsByCodeCnt (handle st) \<noteq> None"
    using f [of errorsByCodeCnt_ref] built_not_nil [of errorsByCodeCnt_ref] by auto
  have n5: "allErrorsCnt (handle st) \<noteq> None"
    using f [of allErrorsCnt_ref] built_not_nil [of allErrorsCnt_ref] by auto
  have n6: "retriesPerRecordSum (handle st) \<noteq> None"
    using f [of retriesPerRecordSum_ref] built_not_nil [of retriesPerRecordSum_ref] by auto
  have n7: "bufferingTimeDur (handle st) \<noteq> None"
    using f [of bufferingTimeDur_ref] built_not_nil [of bufferingTimeDur_ref] by auto
  have n8: "requestTimeDur (handle st) \<noteq> None"
    using f [of requestTimeDur_ref] built_not_nil [of requestTimeDur_ref] by auto
  have n9: "userRecordsPerKinesisRecordSum (handle st) \<noteq> None"
    using f [of userRecordsPerKinesisRecordSum_ref] built_not_nil [of userRecordsPerKinesisRecordSum_ref] by auto
  have n10: "kinesisRecordsPerPutRecordsRequestSum (handle st) \<noteq> None"
    using f [of kinesisRecordsPerPutRecordsRequestSum_ref] built_not_nil [of kinesisRecordsPerPutRecordsRequestSum_ref] by auto
  have all: "\<forall>d. fieldOf d (handle st) \<noteq> None
            \<and> fieldOf d (handle st) = newMetric (alloc d) systemName"
    using f built_not_nil by (simp add: built_def)
  then have byId: "\<forall>m \<in> set (map alloc metricList).
          fieldNamed (ID m) (handle st) \<noteq> None
          \<and> fieldNamed (ID m) (handle st) = newMetric m systemName"
    by (metis (no_types, lifting) fieldNamed_ID imageE list.set_map)
  from run n0 n1 n2 n3 n4 n5 n6 n7 n8 n9 n10 all byId show ?thesis
    by blast
qed

theorem getMetrics_handle_populated_witness:
  "\<exists>st. getMetrics (\<lambda>r c. (Some ''duplicate metrics collector registration attempted'', r)) ()
        = Inr st
     \<and> errorsByCodeCnt (handle st) = Some (NewCounterVec
          \<lparr>c_Namespace = [], c_Subsystem = ''go_kinesis_producer'',
           c_Name = ''errors_by_code_total'', c_Help = ''Count of each type of error code.''\<rparr>
          [''stream'', ''code''])
     \<and> retriesPerRecordSum (handle st) = Some (NewHistogramVec
          \<lparr>h_Namespace = [], h_Subsystem = ''go_kinesis_producer'',
           h_Name = ''retries_per_record'',
           h_Help = Description (alloc retriesPerRecordSum_ref), h_Buckets = []\<rparr>
          [''stream''])"
proof -
  from getMetrics_handle_populated
    [of "\<lambda>r c. (Some ''duplicate metrics collector registration attempted'', r)" "()"]
  obtain st where
    run: "getMetrics (\<lambda>r c. (Some ''duplicate metrics collector registration attempted'', r)) ()
        = Inr st"
    and f: "\<forall>m \<in> set (map alloc metricList).
          fieldNamed (ID m) (handle st) \<noteq> None
          \<and> fieldNamed (ID m) (handle st) = newMetric m systemName"
    by blast
  have "alloc errorsByCodeCnt_ref \<in> set (map alloc metricList)"
    by (simp add: metricList_def)
  with f have "fieldNamed (ID (alloc errorsByCodeCnt_ref)) (handle st)
      = newMetric (alloc errorsByCodeCnt_ref) systemName" by blast
  then have e: "errorsByCodeCnt (handle st) = Some (NewCounterVec
          \<lparr>c_Namespace = [], c_Subsystem = ''go_kinesis_producer'',
           c_Name = ''errors_by_code_total'', c_Help = ''Count of each type of error code.''\<rparr>
          [''stream'', ''code''])"
    by (simp add: fieldNamed_def newMetric_def systemName_def)
  have "alloc retriesPerRecordSum_ref \<in> set (map alloc metricList)"
    by (simp add: metricList_def)
  with f have "fieldNamed (ID (alloc retriesPerRecordSum_ref)) (handle st)
      = newMetric (alloc retriesPerRecordSum_ref) systemName" by blast
  then have "retriesPerRecordSum (handle st) = Some (NewHistogramVec
          \<lparr>h_Namespace = [], h_Subsystem = ''go_kinesis_producer'',
           h_Name = ''retries_per_record'',
           h_Help = Description (alloc retriesPerRecordSum_ref), h_Buckets = []\<rparr>
          [''stream''])"
    by (simp add: fieldNamed_def newMetric_def systemName_def Let_def)
  with run e show ?thesis by blast
qed

subsection \<open>Registration and logging\<close>

lemma expectedCalls_length:
  "length ms = length os \<Longrightarrow>
   length (expectedCalls ms os) = length (filter (\<lambda>x. x \<noteq> None) os)"
  by (induction ms os rule: expectedCalls.induct) simp_all

lemma outcomes_length: "length (outcomes R r cs) = length cs"
  by (induction cs arbitrary: r) simp_all

lemma alloc_Name_inj: "Name (alloc d) = Name (alloc d') \<Longrightarrow> d = d'"
  by (cases d; cases d'; simp)

lemma metricList_distinct: "distinct metricList"
  by (simp add: metricList_def)

lemma nameRegistry_built:
  "nameRegistry names (built d) =
     (if ([], systemName, Name (alloc d)) \<in> set names
      then (Some (AlreadyRegistered ([], systemName, Name (alloc d))), names)
      else (None, names @ [([], systemName, Name (alloc d))]))"
  using built_optsName [of d] by auto

lemma first_pass:
  "distinct ds \<Longrightarrow> \<forall>d \<in> set ds. ([], systemName, Name (alloc d)) \<notin> set names \<Longrightarrow>
   outcomes nameRegistry names (map built ds) = map (\<lambda>d. None) ds
   \<and> registerAll nameRegistry names (map built ds)
       = names @ map (\<lambda>d. ([], systemName, Name (alloc d))) ds"
proof (induction ds arbitrary: names)
  case Nil
  then show ?case by simp
next
  case (Cons d ds)
  have "\<forall>x \<in> set ds. ([], systemName, Name (alloc x))
      \<notin> set (names @ [([], systemName, Name (alloc d))])"
    using Cons.prems by (auto dest: alloc_Name_inj)
  with Cons.IH [of "names @ [([], systemName, Name (alloc d))]"] Cons.prems
  show ?case by (simp add: nameRegistry_built)
qed

lemma second_pass:
  "\<forall>d \<in> set ds. ([], systemName, Name (alloc d)) \<in> set names \<Longrightarrow>
   outcomes nameRegistry names (map built ds)
     = map (\<lambda>d. Some (AlreadyRegistered ([], systemName, Name (alloc d)))) ds
   \<and> registerAll nameRegistry names (map built ds) = names"
  by (induction ds) (simp_all add: nameRegistry_built)

lemma expectedCalls_none: "expectedCalls (map alloc ds) (map (\<lambda>d. None) ds) = []"
  by (induction ds) simp_all

lemma expectedCalls_all:
  "expectedCalls (map alloc ds) (map (\<lambda>d. Some (f d)) ds)
     = map (\<lambda>d. (notRegisteredMessage (Name (alloc d)), f d)) ds"
  by (induction ds) simp_all

lemma built_key:
  "map_option optsName (newMetric (alloc d) systemName) = Some ([], systemName, Name (alloc d))"
  using built_optsName [of d] by (auto simp: built_def)

lemma catalog_names:
  "map Name (map alloc metricList) =
     [''user_records_put_total'',
      ''user_records_data_put_bytes'',
      ''kinesis_records_put_total'',
      ''kinesis_records_data_put_bytes'',
      ''errors_by_code_total'',
      ''errors_total'',
      ''retries_per_record'',
      ''buffering_time_milliseconds'',
      ''request_time_milliseconds'',
      ''user_records_per_kinesis_record'',
      ''kinesis_records_per_put_records_request'']"
  by (simp add: metricList_def)

lemma metricList_length: "length metricList = 11"
  by (simp add: metricList_def)

lemma populated_fieldOf: "(\<And>d. fieldOf d p = built d) \<Longrightarrow> populated p"
proof -
  assume f: "\<And>d. fieldOf d p = built d"
  have n0: "userRecordsPutCnt p \<noteq> None"
    using f [of userRecordsPutCnt_ref] built_not_nil [of userRecordsPutCnt_ref] by auto
  have n1: "userRecordsDataPutSz p \<noteq> None"
    using f [of userRecordsDataPutSz_ref] built_not_nil [of userRecordsDataPutSz_ref] by auto
  have n2: "kinesisRecordsPutCnt p \<noteq> None"
    using f [of kinesisRecordsPutCnt_ref] built_not_nil [of kinesisRecordsPutCnt_ref] by auto
  have n3: "kinesisRecordsDataPutSz p \<noteq> None"
    using f [of kinesisRecordsDataPutSz_ref] built_not_nil [of kinesisRecordsDataPutSz_ref] by auto
  have n4: "errorsByCodeCnt p \<noteq> None"
    using f [of errorsByCodeCnt_ref] built_not_nil [of errorsByCodeCnt_ref] by auto
  have n5: "allErrorsCnt p \<noteq> None"
    using f [of allErrorsCnt_ref] built_not_nil [of allErrorsCnt_ref] by auto
  have n6: "retriesPerRecordSum p \<noteq> None"
    using f [of retriesPerRecordSum_ref] built_not_nil [of retriesPerRecordSum_ref] by auto
  have n7: "bufferingTimeDur p \<noteq> None"
    using f [of bufferingTimeDur_ref] built_not_nil [of bufferingTimeDur_ref] by auto
  have n8: "requestTimeDur p \<noteq> None"
    using f [of requestTimeDur_ref] built_not_nil [of requestTimeDur_ref] by auto
  have n9: "userRecordsPerKinesisRecordSum p \<noteq> None"
    using f [of userRecordsPerKinesisRecordSum_ref] built_not_nil [of userRecordsPerKinesisRecordSum_ref] by auto
  have n10: "kinesisRecordsPerPutRecordsRequestSum p \<noteq> None"
    using f [of kinesisRecordsPerPutRecordsRequestSum_ref] built_not_nil [of kinesisRecordsPerPutRecordsRequestSum_ref] by auto
  show ?thesis
    unfolding populated_def using n0 n1 n2 n3 n4 n5 n6 n7 n8 n9 n10 by blast
qed

text \<open>
  C3. First part, for any registry and any state of it: \<open>getMetrics\<close> returns; all
  eleven collectors are offered to the registry, in catalog order, whatever the answers
  to the earlier ones were; and the logger's \<open>Error\<close> method is called once for each
  registration that returned an error and not otherwise, in that order, with the message
  made of the metric's name and with the error returned as cause. Second part, on a
  registry that refuses a name it already holds: the first run from the empty registry
  logs nothing, the second run against the registry the first one left returns as well,
  logs one conflict for each of the eleven metrics, and its handle has no nil field.
\<close>

theorem getMetrics_logs_failed_registrations:
  "(\<exists>st. getMetrics Register r0 = Inr st
      \<and> registry st = registerAll Register r0 (map built metricList)
      \<and> logCalls st = expectedCalls (map alloc metricList)
                        (outcomes Register r0 (map built metricList))
      \<and> length (logCalls st)
          = length (filter (\<lambda>x. x \<noteq> None) (outcomes Register r0 (map built metricList)))
      \<and> length (outcomes Register r0 (map built metricList)) = 11
      \<and> map Name (map alloc metricList) =
          [''user_records_put_total'',
           ''user_records_data_put_bytes'',
           ''kinesis_records_put_total'',
           ''kinesis_records_data_put_bytes'',
           ''errors_by_code_total'',
           ''errors_total'',
           ''retries_per_record'',
           ''buffering_time_milliseconds'',
           ''request_time_milliseconds'',
           ''user_records_per_kinesis_record'',
           ''kinesis_records_per_put_records_request''])
   \<and> (\<exists>st1 st2. getMetrics nameRegistry [] = Inr st1 \<and> logCalls st1 = []
      \<and> getMetrics nameRegistry (registry st1) = Inr st2
      \<and> logCalls st2 =
          map (\<lambda>n. (n @ '' could not be registered in Prometheus'',
                    AlreadyRegistered ([], ''go_kinesis_producer'', n)))
            [''user_records_put_total'',
             ''user_records_data_put_bytes'',
             ''kinesis_records_put_total'',
             ''kinesis_records_data_put_bytes'',
             ''errors_by_code_total'',
             ''errors_total'',
             ''retries_per_record'',
             ''buffering_time_milliseconds'',
             ''request_time_milliseconds'',
             ''user_records_per_kinesis_record'',
             ''kinesis_records_per_put_records_request'']
      \<and> length (logCalls st2) = 11
      \<and> populated (handle st2))" (is "?G1 \<and> ?G2")
proof (rule conjI)
  from getMetrics_run [of Register r0] obtain st where
    run: "getMetrics Register r0 = Inr st"
    and r: "registry st = registerAll Register r0 (map built metricList)"
    and l: "logCalls st = expectedCalls (map alloc metricList)
                        (outcomes Register r0 (map built metricList))"
    by blast
  have n: "length (logCalls st)
      = length (filter (\<lambda>x. x \<noteq> None) (outcomes Register r0 (map built metricList)))"
    by (simp add: l expectedCalls_length outcomes_length)
  have k: "length (outcomes Register r0 (map built metricList)) = 11"
    by (simp add: outcomes_length metricList_length)
  from run r l n k catalog_names show ?G1
    by - (rule exI [of _ st], (intro conjI; assumption))
next
  let ?key = "\<lambda>d. ([], systemName, Name (alloc d))"
  from getMetrics_run [of nameRegistry "[]"] obtain st1 where
    run1: "getMetrics nameRegistry [] = Inr st1"
    and r1: "registry st1 = registerAll nameRegistry [] (map built metricList)"
    and l1: "logCalls st1 = expectedCalls (map alloc metricList)
                        (outcomes nameRegistry [] (map built metricList))"
    by blast
  from first_pass [OF metricList_distinct, of "[]"]
  have o1: "outcomes nameRegistry [] (map built metricList) = map (\<lambda>d. None) metricList"
    and k1: "registerAll nameRegistry [] (map built metricList) = map ?key metricList"
    by simp_all
  have log1: "logCalls st1 = []"
    by (simp add: l1 o1 expectedCalls_none)
  have held: "\<forall>d \<in> set metricList. ?key d \<in> set (registry st1)"
    by (simp add: r1 k1)
  from getMetrics_run [of nameRegistry "registry st1"] obtain st2 where
    run2: "getMetrics nameRegistry (registry st1) = Inr st2"
    and l2: "logCalls st2 = expectedCalls (map alloc metricList)
                        (outcomes nameRegistry (registry st1) (map built metricList))"
    and f2: "fieldOf d (handle st2) = built d" for d
    by blast
  from second_pass [OF held]
  have o2: "outcomes nameRegistry (registry st1) (map built metricList)
     = map (\<lambda>d. Some (AlreadyRegistered (?key d))) metricList"
    by simp
  have "logCalls st2 = map (\<lambda>d. (notRegisteredMessage (Name (alloc d)),
                                 AlreadyRegistered (?key d))) metricList"
    by (simp only: l2 o2 expectedCalls_all)
  then have log2: "logCalls st2 =
          map (\<lambda>n. (n @ '' could not be registered in Prometheus'',
                    AlreadyRegistered ([], ''go_kinesis_producer'', n)))
            [''user_records_put_total'',
           ''user_records_data_put_bytes'',
           ''kinesis_records_put_total'',
           ''kinesis_records_data_put_bytes'',
           ''errors_by_code_total'',
           ''errors_total'',
           ''retries_per_record'',
           ''buffering_time_milliseconds'',
           ''request_time_milliseconds'',
           ''user_records_per_kinesis_record'',
           ''kinesis_records_per_put_records_request'']"
    by (simp add: metricList_def notRegisteredMessage_def systemName_def)
  then have len2: "length (logCalls st2) = 11"
    by simp
  have pop: "populated (handle st2)"
    using f2 by (rule populated_fieldOf)
  from run1 log1 run2 log2 len2 pop show ?G2
    by - (rule exI [of _ st1], rule exI [of _ st2], (intro conjI; assumption))
qed

theorem getMetrics_logs_failed_registrations_witness:
  "\<exists>st. getMetrics (\<lambda>r c. (if r < 2 then None else Some ''descriptor is invalid'', Suc r)) 0
        = Inr st
     \<and> registry st = 11
     \<and> logCalls st =
      map (\<lambda>n. (n @ '' could not be registered in Prometheus'', ''descriptor is invalid''))
        [''kinesis_records_put_total'', ''kinesis_records_data_put_bytes'',
         ''errors_by_code_total'', ''errors_total'', ''retries_per_record'',
         ''buffering_time_milliseconds'', ''request_time_milliseconds'',
         ''user_records_per_kinesis_record'', ''kinesis_records_per_put_records_request'']"
proof -
  let ?R = "\<lambda>(r::nat) (c::Collector option).
              (if r < 2 then None else Some ''descriptor is invalid'', Suc r)"
  from getMetrics_logs_failed_registrations [of ?R 0, THEN conjunct1] obtain st where
    A: "getMetrics ?R 0 = Inr st
      \<and> registry st = registerAll ?R 0 (map built metricList)
      \<and> logCalls st = expectedCalls (map alloc metricList)
                        (outcomes ?R 0 (map built metricList))
      \<and> length (logCalls st)
          = length (filter (\<lambda>x. x \<noteq> None) (outcomes ?R 0 (map built metricList)))
      \<and> length (outcomes ?R 0 (map built metricList)) = 11
      \<and> map Name (map alloc metricList) =
          [''user_records_put_total'',
           ''user_records_data_put_bytes'',
           ''kinesis_records_put_total'',
           ''kinesis_records_data_put_bytes'',
           ''errors_by_code_total'',
           ''errors_total'',
           ''retries_per_record'',
           ''buffering_time_milliseconds'',
           ''request_time_milliseconds'',
           ''user_records_per_kinesis_record'',
           ''kinesis_records_per_put_records_request'']" ..
  have run: "getMetrics ?R 0 = Inr st"
    and r: "registry st = registerAll ?R 0 (map built metricList)"
    and l: "logCalls st = expectedCalls (map alloc metricList)
                        (outcomes ?R 0 (map built metricList))"
    using A by simp_all
  have r11: "registry st = 11"
    by (simp add: r metricList_def)
  have calls: "logCalls st =
      map (\<lambda>n. (n @ '' could not be registered in Prometheus'', ''descriptor is invalid''))
        [''kinesis_records_put_total'', ''kinesis_records_data_put_bytes'',
         ''errors_by_code_total'', ''errors_total'', ''retries_per_record'',
         ''buffering_time_milliseconds'', ''request_time_milliseconds'',
         ''user_records_per_kinesis_record'', ''kinesis_records_per_put_records_request'']"
    by (simp add: l metricList_def notRegisteredMessage_def)
  from run r11 calls show ?thesis
    by - (rule exI [of _ st], (intro conjI; assumption))
qed

text \<open>
  C7. Two runs of \<open>getMetrics\<close>, the second against the registry the first one left,
  construct the same descriptors: at every pointer, and so at every position of the
  eleven-element catalog, the two stores agree on \<open>ID\<close>, \<open>Name\<close>, \<open>Description\<close>, \<open>Type\<close>,
  \<open>Args\<close> and \<open>Buckets\<close>, and both agree with the composite literals; what a run
  changes in a descriptor is its \<open>MetricCollector\<close> field alone.
\<close>

theorem catalog_construction_repeatable:
  "\<exists>st st'. getMetrics Register r0 = Inr st
     \<and> getMetrics Register (registry st) = Inr st'
     \<and> (\<forall>d. declaredFields (descriptors st' d) = declaredFields (descriptors st d))
     \<and> map (\<lambda>d. declaredFields (descriptors st' d)) metricList
         = map (\<lambda>d. declaredFields (descriptors st d)) metricList
     \<and> map (\<lambda>d. declaredFields (descriptors st d)) metricList
         = map (\<lambda>d. declaredFields (alloc d)) metricList
     \<and> length metricList = 11 \<and> distinct metricList"
proof -
  from getMetrics_run [of Register r0] obtain st where
    run: "getMetrics Register r0 = Inr st"
    and h: "\<forall>d. descriptors st d = (alloc d)\<lparr>MetricCollector := built d\<rparr>"
    by blast
  from getMetrics_run [of Register "registry st"] obtain st' where
    run': "getMetrics Register (registry st) = Inr st'"
    and h': "\<forall>d. descriptors st' d = (alloc d)\<lparr>MetricCollector := built d\<rparr>"
    by blast
  have a: "declaredFields (descriptors st d) = declaredFields (alloc d)" for d
    by (simp add: h declaredFields_def)
  have b: "declaredFields (descriptors st' d) = declaredFields (alloc d)" for d
    by (simp add: h' declaredFields_def)
  have c: "\<forall>d. declaredFields (descriptors st' d) = declaredFields (descriptors st d)"
    by (simp only: a b) simp
  have d: "map (\<lambda>d. declaredFields (descriptors st' d)) metricList
         = map (\<lambda>d. declaredFields (descriptors st d)) metricList"
    by (simp only: a b)
  have e: "map (\<lambda>d. declaredFields (descriptors st d)) metricList
         = map (\<lambda>d. declaredFields (alloc d)) metricList"
    by (simp only: a)
  from run run' c d e metricList_length metricList_distinct show ?thesis
    by - (rule exI [of _ st], rule exI [of _ st'], (intro conjI; assumption))
qed

text \<open>
  C6. The catalog, in order, with the kind, the label names and the bucket set of each
  descriptor: among the eleven rows, \<open>kinesisRecordsPutCnt\<close> is a counter with labels
  stream and shard, \<open>errorsByCodeCnt\<close> a counter with labels stream and code,
  \<open>retriesPerRecordSum\<close> a histogram with label stream and no declared buckets,
  \<open>bufferingTimeDur\<close> and \<open>requestTimeDur\<close> histograms with label stream and the
  millisecond buckets.
\<close>

theorem catalog_table:
  "map (\<lambda>d. (ID (alloc d), Type (alloc d), Args (alloc d), Buckets (alloc d))) metricList =
     [(''userRecordsPutCnt'', ''counter_vec'', [''stream''], []),
      (''userRecordsDataPutSz'', ''histogram_vec'', [''stream''], sizeByteBuckets),
      (''kinesisRecordsPutCnt'', ''counter_vec'', [''stream'', ''shard''], []),
      (''kinesisRecordsDataPutSz'', ''histogram_vec'', [''stream''], sizeByteBuckets),
      (''errorsByCodeCnt'', ''counter_vec'', [''stream'', ''code''], []),
      (''allErrorsCnt'', ''counter_vec'', [''stream''], []),
      (''retriesPerRecordSum'', ''histogram_vec'', [''stream''], []),
      (''bufferingTimeDur'', ''histogram_vec'', [''stream''], timeMillisecondBuckets),
      (''requestTimeDur'', ''histogram_vec'', [''stream''], timeMillisecondBuckets),
      (''userRecordsPerKinesisRecordSum'', ''histogram_vec'', [''stream''], sizeByteBuckets),
      (''kinesisRecordsPerPutRecordsRequestSum'', ''histogram_vec'', [''stream''], sizeByteBuckets)]"
  by (simp add: metricList_def)

text \<open>
  C8. For any registry, the collectors \<open>getMetrics\<close> offers to it are, in order, the
  ones \<open>newMetric\<close> builds from the descriptors of the catalog with \<open>systemName\<close> as
  subsystem; each of the eleven has an empty namespace, the subsystem
  \<open>go_kinesis_producer\<close> and the name of its descriptor.
\<close>

theorem getMetrics_registers_with_systemName:
  "\<exists>st. getMetrics Register r0 = Inr st
     \<and> registry st = registerAll Register r0
         (map (\<lambda>m. newMetric m systemName) (map alloc metricList))
     \<and> map (map_option optsName) (map (\<lambda>m. newMetric m systemName) (map alloc metricList)) =
     [Some ([], ''go_kinesis_producer'', ''user_records_put_total''),
      Some ([], ''go_kinesis_producer'', ''user_records_data_put_bytes''),
      Some ([], ''go_kinesis_producer'', ''kinesis_records_put_total''),
      Some ([], ''go_kinesis_producer'', ''kinesis_records_data_put_bytes''),
      Some ([], ''go_kinesis_producer'', ''errors_by_code_total''),
      Some ([], ''go_kinesis_producer'', ''errors_total''),
      Some ([], ''go_kinesis_producer'', ''retries_per_record''),
      Some ([], ''go_kinesis_producer'', ''buffering_time_milliseconds''),
      Some ([], ''go_kinesis_producer'', ''request_time_milliseconds''),
      Some ([], ''go_kinesis_producer'', ''user_records_per_kinesis_record''),
      Some ([], ''go_kinesis_producer'', ''kinesis_records_per_put_records_request'')]
     \<and> (\<forall>d. \<exists>c. newMetric (alloc d) systemName = Some c
             \<and> optsName c = ([], systemName, Name (alloc d)))
     \<and> systemName = ''go_kinesis_producer''"
proof -
  from getMetrics_run [of Register r0] obtain st where
    run: "getMetrics Register r0 = Inr st"
    and r: "registry st = registerAll Register r0 (map built metricList)"
    by blast
  have "map built metricList = map (\<lambda>m. newMetric m systemName) (map alloc metricList)"
    by (simp add: built_def)
  with r have r': "registry st = registerAll Register r0
         (map (\<lambda>m. newMetric m systemName) (map alloc metricList))"
    by simp
  have "map (map_option optsName) (map (\<lambda>m. newMetric m systemName) (map alloc metricList))
      = map (\<lambda>d. map_option optsName (newMetric (alloc d) systemName)) metricList"
    by (simp only: map_map comp_def)
  also have "\<dots> = map (\<lambda>d. Some ([], systemName, Name (alloc d))) metricList"
    by (simp only: built_key)
  also have "\<dots> =
     [Some ([], ''go_kinesis_producer'', ''user_records_put_total''),
      Some ([], ''go_kinesis_producer'', ''user_records_data_put_bytes''),
      Some ([], ''go_kinesis_producer'', ''kinesis_records_put_total''),
      Some ([], ''go_kinesis_producer'', ''kinesis_records_data_put_bytes''),
      Some ([], ''go_kinesis_producer'', ''errors_by_code_total''),
      Some ([], ''go_kinesis_producer'', ''errors_total''),
      Some ([], ''go_kinesis_producer'', ''retries_per_record''),
      Some ([], ''go_kinesis_producer'', ''buffering_time_milliseconds''),
      Some ([], ''go_kinesis_producer'', ''request_time_milliseconds''),
      Some ([], ''go_kinesis_producer'', ''user_records_per_kinesis_record''),
      Some ([], ''go_kinesis_producer'', ''kinesis_records_per_put_records_request'')]"
    by (simp add: metricList_def systemName_def)
  finally have k: "map (map_option optsName)
       (map (\<lambda>m. newMetric m systemName) (map alloc metricList)) =
     [Some ([], ''go_kinesis_producer'', ''user_records_put_total''),
      Some ([], ''go_kinesis_producer'', ''user_records_data_put_bytes''),
      Some ([], ''go_kinesis_producer'', ''kinesis_records_put_total''),
      Some ([], ''go_kinesis_producer'', ''kinesis_records_data_put_bytes''),
      Some ([], ''go_kinesis_producer'', ''errors_by_code_total''),
      Some ([], ''go_kinesis_producer'', ''errors_total''),
      Some ([], ''go_kinesis_producer'', ''retries_per_record''),
      Some ([], ''go_kinesis_producer'', ''buffering_time_milliseconds''),
      Some ([], ''go_kinesis_producer'', ''request_time_milliseconds''),
      Some ([], ''go_kinesis_producer'', ''user_records_per_kinesis_record''),
      Some ([], ''go_kinesis_producer'', ''kinesis_records_per_put_records_request'')]" .
  have e: "\<forall>d. \<exists>c. newMetric (alloc d) systemName = Some c
             \<and> optsName c = ([], systemName, Name (alloc d))"
    using built_optsName by (simp add: built_def)
  from run r' k e show ?thesis
    by (simp add: systemName_def)
qed

theorem getMetrics_registers_with_systemName_witness:
  "\<exists>st. getMetrics (\<lambda>r c. (None :: unit option, r @ [map_option optsName c])) [] = Inr st
     \<and> registry st =
     [Some ([], ''go_kinesis_producer'', ''user_records_put_total''),
      Some ([], ''go_kinesis_producer'', ''user_records_data_put_bytes''),
      Some ([], ''go_kinesis_producer'', ''kinesis_records_put_total''),
      Some ([], ''go_kinesis_producer'', ''kinesis_records_data_put_bytes''),
      Some ([], ''go_kinesis_producer'', ''errors_by_code_total''),
      Some ([], ''go_kinesis_producer'', ''errors_total''),
      Some ([], ''go_kinesis_producer'', ''retries_per_record''),
      Some ([], ''go_kinesis_producer'', ''buffering_time_milliseconds''),
      Some ([], ''go_kinesis_producer'', ''request_time_milliseconds''),
      Some ([], ''go_kinesis_producer'', ''user_records_per_kinesis_record''),
      Some ([], ''go_kinesis_producer'', ''kinesis_records_per_put_records_request'')]"
proof -
  let ?R = "\<lambda>r c. (None :: unit option, r @ [map_option optsName c])"
  have spy: "registerAll ?R xs cs = xs @ map (map_option optsName) cs" for xs cs
    by (induction cs arbitrary: xs) simp_all
  from getMetrics_registers_with_systemName [of ?R "[]"]
  show ?thesis
    by (elim exE conjE) (rule exI, simp only: spy append_Nil simp_thms)
qed

subsection \<open>The factory and the store\<close>

lemma readSlice_length: "validSlice h s \<Longrightarrow> length (readSlice h s) = slen s"
  by (cases s) auto

text \<open>Read as values, the function on the store is the function of the sections above.\<close>

lemma newMetric_s_refines:
  assumes "validSlice (arrays mem) (Buckets_s (structs mem ! m))"
  shows "map_option (absCollector (arrays (snd (newMetric_s spare mem m sub))))
           (fst (newMetric_s spare mem m sub))
         = newMetric (absMetric (arrays mem) (structs mem ! m)) sub"
  using readSlice_length [OF assms]
  by (auto simp: newMetric_s_def newMetric_def absMetric_def Let_def)

lemma newMetric_s_cases:
  assumes "validSlice (arrays mem) (Buckets_s (structs mem ! m))"
    and "newMetric_s spare mem m sub = (c, mem')"
  shows "(mem' = mem \<and> bucketsOf c = NilSlice
          \<and> readSlice (arrays mem) (Buckets_s (structs mem ! m)) = [])
       \<or> (mem' = mem \<and> bucketsOf c = NilSlice
          \<and> Type_s (structs mem ! m) \<noteq> ''histogram_vec'')
       \<or> (Type_s (structs mem ! m) = ''histogram_vec''
          \<and> mem' = mem\<lparr>arrays := arrays mem
                @ [readSlice (arrays mem) (Buckets_s (structs mem ! m)) @ replicate spare 0]\<rparr>
          \<and> bucketsOf c = Slice (length (arrays mem)) 0
                (slen (Buckets_s (structs mem ! m)))
                (slen (Buckets_s (structs mem ! m)) + spare))"
  using assms(2) readSlice_length [OF assms(1)]
  by (auto simp: newMetric_s_def Let_def split: if_splits)

lemma readSlice_grow:
  "validSlice h s \<Longrightarrow> readSlice (h @ [xs]) s = readSlice h s \<and> validSlice (h @ [xs]) s"
  by (cases s) (auto simp: nth_append)

text \<open>
  That \<open>append\<close> can write into a shared array, when the slice appended to has room: not
  the case in \<open>newMetric\<close>, where that slice is nil.
\<close>

lemma go_append_in_place:
  "go_append 0 [[1, 2, 3]] (Slice 0 0 1 3) [9] = (Slice 0 0 2 3, [[1, 9, 3]])"
  by (simp add: writeAt_def)

text \<open>
  C10. \<open>newMetric\<close> leaves every descriptor struct as it was, and with it every declared
  field; it leaves every array that existed before the call as it was, so that every
  slice that was valid before the call (the descriptors' \<open>Buckets\<close> and the two bucket
  constants among them) still reads the same sequence; and the slice it puts into the
  options of a histogram is on no array that any slice valid before the call is on,
  while holding the descriptor's boundaries in order.
\<close>

theorem newMetric_s_frame:
  assumes "m < length (structs mem)"
    and "validSlice (arrays mem) (Buckets_s (structs mem ! m))"
    and "newMetric_s spare mem m sub = (c, mem')"
  shows "structs mem' = structs mem
     \<and> length (arrays mem) \<le> length (arrays mem')
     \<and> (\<forall>a < length (arrays mem). arrays mem' ! a = arrays mem ! a)
     \<and> (\<forall>s. validSlice (arrays mem) s \<longrightarrow>
           readSlice (arrays mem') s = readSlice (arrays mem) s
           \<and> \<not> sharesArray (bucketsOf c) s)
     \<and> readSlice (arrays mem') (bucketsOf c) =
         (if Type_s (structs mem ! m) = ''histogram_vec''
          then readSlice (arrays mem) (Buckets_s (structs mem ! m)) else [])"
proof -
  let ?b = "Buckets_s (structs mem ! m)"
  from newMetric_s_cases [OF assms(2,3)]
  consider (same) "mem' = mem" "bucketsOf c = NilSlice"
      "readSlice (arrays mem) ?b = [] \<or> Type_s (structs mem ! m) \<noteq> ''histogram_vec''"
    | (fresh) "Type_s (structs mem ! m) = ''histogram_vec''"
      "mem' = mem\<lparr>arrays := arrays mem @ [readSlice (arrays mem) ?b @ replicate spare 0]\<rparr>"
      "bucketsOf c = Slice (length (arrays mem)) 0 (slen ?b) (slen ?b + spare)"
    by blast
  then show ?thesis
  proof cases
    case same
    then show ?thesis by auto
  next
    case fresh
    have len: "length (readSlice (arrays mem) ?b) = slen ?b"
      using assms(2) by (rule readSlice_length)
    have noshare: "\<not> sharesArray (bucketsOf c) s" if "validSlice (arrays mem) s" for s
      using that fresh(3) by (cases s) auto
    have rd: "readSlice (arrays mem') s = readSlice (arrays mem) s"
      if "validSlice (arrays mem) s" for s
      using readSlice_grow [OF that] fresh(2) by simp
    have new: "readSlice (arrays mem') (bucketsOf c) = readSlice (arrays mem) ?b"
      using len by (simp add: fresh(2,3))
    show ?thesis
      using fresh(1) noshare rd new by (simp add: fresh(2) nth_append)
  qed
qed

theorem newMetric_s_frame_witness:
  "newMetric_s 4
     \<lparr>arrays = [timeMillisecondBuckets, sizeByteBuckets],
      structs = [\<lparr>MetricCollector_s = None, ID_s = ''requestTimeDur'',
        Name_s = ''request_time_milliseconds'',
        Description_s = ''The time it takes to perform PutRecordsRequests.'',
        Type_s = ''histogram_vec'', Args_s = [''stream''],
        Buckets_s = Slice 0 0 12 12\<rparr>]\<rparr>
     0 ''go_kinesis_producer''
   = (Some (HistogramVecPtr_s
        \<lparr>hs_Namespace = [], hs_Subsystem = ''go_kinesis_producer'',
         hs_Name = ''request_time_milliseconds'',
         hs_Help = ''The time it takes to perform PutRecordsRequests.'',
         hs_Buckets = Slice 2 0 12 16\<rparr> [''stream'']),
      \<lparr>arrays = [timeMillisecondBuckets, sizeByteBuckets,
                 timeMillisecondBuckets @ [0, 0, 0, 0]],
      structs = [\<lparr>MetricCollector_s = None, ID_s = ''requestTimeDur'',
        Name_s = ''request_time_milliseconds'',
        Description_s = ''The time it takes to perform PutRecordsRequests.'',
        Type_s = ''histogram_vec'', Args_s = [''stream''],
        Buckets_s = Slice 0 0 12 12\<rparr>]\<rparr>)
   \<and> validSlice [timeMillisecondBuckets, sizeByteBuckets] (Slice 0 0 12 12)
   \<and> validSlice [timeMillisecondBuckets, sizeByteBuckets] (Slice 1 0 11 11)
   \<and> readSlice [timeMillisecondBuckets, sizeByteBuckets,
                 timeMillisecondBuckets @ [0, 0, 0, 0]] (Slice 0 0 12 12)
       = timeMillisecondBuckets
   \<and> readSlice [timeMillisecondBuckets, sizeByteBuckets,
                 timeMillisecondBuckets @ [0, 0, 0, 0]] (Slice 1 0 11 11)
       = sizeByteBuckets
   \<and> \<not> sharesArray (Slice 2 0 12 16) (Slice 0 0 12 12)
   \<and> readSlice [timeMillisecondBuckets, sizeByteBuckets,
                 timeMillisecondBuckets @ [0, 0, 0, 0]] (Slice 2 0 12 16)
       = timeMillisecondBuckets"
proof -
  let ?mem = "\<lparr>arrays = [timeMillisecondBuckets, sizeByteBuckets],
      structs = [\<lparr>MetricCollector_s = None, ID_s = ''requestTimeDur'',
        Name_s = ''request_time_milliseconds'',
        Description_s = ''The time it takes to perform PutRecordsRequests.'',
        Type_s = ''histogram_vec'', Args_s = [''stream''],
        Buckets_s = Slice 0 0 12 12\<rparr>]\<rparr>"
  let ?mem' = "\<lparr>arrays = [timeMillisecondBuckets, sizeByteBuckets,
                 timeMillisecondBuckets @ [0, 0, 0, 0]],
      structs = [\<lparr>MetricCollector_s = None, ID_s = ''requestTimeDur'',
        Name_s = ''request_time_milliseconds'',
        Description_s = ''The time it takes to perform PutRecordsRequests.'',
        Type_s = ''histogram_vec'', Args_s = [''stream''],
        Buckets_s = Slice 0 0 12 12\<rparr>]\<rparr>"
  let ?c = "Some (HistogramVecPtr_s
        \<lparr>hs_Namespace = [], hs_Subsystem = ''go_kinesis_producer'',
         hs_Name = ''request_time_milliseconds'',
         hs_Help = ''The time it takes to perform PutRecordsRequests.'',
         hs_Buckets = Slice 2 0 12 16\<rparr> [''stream''])"
  have l12: "length timeMillisecondBuckets = 12" and l11: "length sizeByteBuckets = 11"
    by (simp_all add: timeMillisecondBuckets_def sizeByteBuckets_def)
  have ne: "timeMillisecondBuckets \<noteq> []"
    using l12 by auto
  have p: "0 < length (structs ?mem)" by simp
  have v: "validSlice (arrays ?mem) (Buckets_s (structs ?mem ! 0))"
    by (simp add: l12)
  have four: "replicate 4 (0::real) = [0, 0, 0, 0]"
    by (simp add: numeral_eq_Suc)
  have run: "newMetric_s 4 ?mem 0 ''go_kinesis_producer'' = (?c, ?mem')"
    by (simp add: newMetric_s_def Let_def l12 four ne)
  have v0: "validSlice (arrays ?mem) (Slice 0 0 12 12)"
    and v1: "validSlice (arrays ?mem) (Slice 1 0 11 11)"
    by (simp_all add: l12 l11)
  from newMetric_s_frame [OF p v run]
  have fr: "\<forall>s. validSlice (arrays ?mem) s \<longrightarrow>
           readSlice (arrays ?mem') s = readSlice (arrays ?mem) s
           \<and> \<not> sharesArray (bucketsOf ?c) s"
    and nw: "readSlice (arrays ?mem') (bucketsOf ?c) =
         (if Type_s (structs ?mem ! 0) = ''histogram_vec''
          then readSlice (arrays ?mem) (Buckets_s (structs ?mem ! 0)) else [])"
    by blast+
  from fr v0 have a0: "readSlice (arrays ?mem') (Slice 0 0 12 12)
        = readSlice (arrays ?mem) (Slice 0 0 12 12)
      \<and> \<not> sharesArray (bucketsOf ?c) (Slice 0 0 12 12)"
    by blast
  from fr v1 have a1: "readSlice (arrays ?mem') (Slice 1 0 11 11)
        = readSlice (arrays ?mem) (Slice 1 0 11 11)"
    by blast
  show ?thesis
    using run v0 v1 a0 a1 nw by (simp add: l12 l11 ne)
qed

end
